theory Spec2Isabelle
  imports Main "HOL-Library.Word"
begin

unbundle bit_operations_syntax

section \<open>Adaptive Radix Tree (ART.h) and its benchmark driver (main.cpp)\<close>

text \<open>
  Conventions of the embedding.
  \<^item> \<open>uint8_t\<close> is \<open>8 word\<close>, \<open>uint16_t\<close> is \<open>16 word\<close>, \<open>uintptr_t\<close> and
    \<open>uint64_t\<close> are \<open>64 word\<close> (the header needs SSE2 and \<open>__builtin_bswap64\<close>, so the
    target is x86-64).
  \<^item> Array indexes, \<open>depth\<close>, \<open>keyLength\<close> and the header fields \<open>prefixLength\<close>
    (\<open>uint32_t\<close>) and \<open>count\<close> (\<open>uint16_t\<close>) are \<open>nat\<close>; where the source
    adds to or subtracts from a header field the wrap-around is written out
    (\<open>u16\<close>, \<open>u32\<close>).
  \<^item> A fixed-size C array is a list of that length; \<open>a[i]\<close> is \<open>a ! i\<close>.
\<close>

type_synonym byte = "8 word"

subsection \<open>ctz\<close>

text \<open>
  \<open>__builtin_ctz\<close> is a compiler builtin: the number of trailing zero bits of an
  \<open>unsigned int\<close>, undefined for 0. It is modelled as the length of the run of clear
  bits that starts at bit 0 (which gives 32 for the undefined argument 0).
\<close>

definition builtin_ctz :: "32 word \<Rightarrow> nat" where
  "builtin_ctz x = length (takeWhile (\<lambda>i. \<not> bit x i) [0..<32])"

text \<open>The \<open>__GNUC__\<close> branch of \<open>ctz\<close>; the argument is promoted to \<open>unsigned int\<close>.\<close>

definition ctz :: "16 word \<Rightarrow> nat" where
  "ctz x = builtin_ctz (ucast x)"

text \<open>
  The \<open>#else\<close> branch of \<open>ctz\<close> ("Adapted from Hacker's Delight"). The pairs
  \<open>(n, x)\<close> are the two variables after each \<open>if\<close>.
\<close>

definition ctz_portable :: "16 word \<Rightarrow> nat" where
  "ctz_portable x0 =
    (let n0 = (1::nat);
         (n1, x1) = (if x0 AND 0xFF = 0 then (n0 + 8, drop_bit 8 x0) else (n0, x0));
         (n2, x2) = (if x1 AND 0x0F = 0 then (n1 + 4, drop_bit 4 x1) else (n1, x1));
         (n3, x3) = (if x2 AND 0x03 = 0 then (n2 + 2, drop_bit 2 x2) else (n2, x2))
     in n3 - unat (x3 AND 1))"

subsection \<open>The benchmark driver's argument loop\<close>

text \<open>
  The three variables \<open>main\<close> sets from its arguments. \<open>atoi\<close> is the C library's and is
  a parameter of the model.
\<close>

record options =
  verbose :: bool
  N :: int
  input_file :: string

definition initial_options :: options where
  "initial_options = \<lparr>verbose = False, N = 1000000, input_file = ''''\<rparr>"

text \<open>
  The loop \<open>for (int i = 1; i < argc;)\<close> of \<open>main\<close>; \<open>argc\<close> is \<open>length argv\<close>. The
  loop has no \<open>else\<close> branch: on an argument that is none of the three flags \<open>i\<close> does
  not change and the loop does not end, which is the value \<open>None\<close>. \<open>-N\<close> as the last
  argument passes \<open>argv[argc]\<close>, a null pointer, to \<open>atoi\<close>; the model gives \<open>None\<close>
  there as well (no options are produced).
\<close>

partial_function (option) parse_args ::
  "(string \<Rightarrow> int) \<Rightarrow> string list \<Rightarrow> nat \<Rightarrow> options \<Rightarrow> options option" where
  "parse_args atoi argv i opts =
    (if i < length argv then
       (if argv ! i = ''-v'' then
          parse_args atoi argv (i + 1) (opts\<lparr>verbose := True\<rparr>)
        else if argv ! i = ''-N'' then
          (if i + 1 < length argv then
             parse_args atoi argv (i + 2) (opts\<lparr>N := atoi (argv ! (i + 1))\<rparr>)
           else None)
        else if argv ! i = ''-f'' then
          parse_args atoi argv (i + 2) (opts\<lparr>input_file := argv ! i\<rparr>)
        else parse_args atoi argv i opts)
     else Some opts)"

text \<open>The name \<open>main\<close> passes to \<open>read_bin\<close>: \<open>input_file\<close> after the loop.\<close>

definition main_reads :: "(string \<Rightarrow> int) \<Rightarrow> string list \<Rightarrow> string option" where
  "main_reads atoi argv = map_option input_file (parse_args atoi argv 1 initial_options)"

section \<open>Properties of ctz\<close>

lemma builtin_ctz_eq:
  assumes "r < 32" "bit x r" "\<forall>i<r. \<not> bit x i"
  shows "builtin_ctz x = r"
proof -
  have "[0..<32] = [0..<r] @ r # [Suc r..<32]"
    using assms(1) by (metis less_imp_add_positive upt_add_eq_append upt_rec zero_le)
  then show ?thesis using assms(2,3)
    by (simp add: builtin_ctz_def takeWhile_append)
qed

lemma and_mask_zero_iff:
  fixes x :: "'a::len word"
  shows "x AND mask k = 0 \<longleftrightarrow> (\<forall>i<k. \<not> bit x i)"
  by (auto simp: bit_eq_iff bit_and_iff bit_mask_iff dest: bit_imp_le_length)

lemma low_bit_cond:
  fixes x :: "16 word"
  assumes "bit x r" "\<forall>i<r. \<not> bit x i" "a \<le> r"
  shows "drop_bit a x AND mask k = 0 \<longleftrightarrow> a + k \<le> r"
proof
  assume h: "drop_bit a x AND mask k = 0"
  show "a + k \<le> r"
  proof (rule ccontr)
    assume "\<not> a + k \<le> r"
    then have "r - a < k" using assms(3) by arith
    with h have "\<not> bit (drop_bit a x) (r - a)" by (simp add: and_mask_zero_iff)
    then show False using assms(1,3) by (simp add: bit_drop_bit_eq)
  qed
next
  assume "a + k \<le> r"
  then show "drop_bit a x AND mask k = 0"
    using assms(2) by (simp add: and_mask_zero_iff bit_drop_bit_eq)
qed

lemma and_one_unat:
  fixes x :: "16 word"
  shows "unat (drop_bit a x AND 1) = (if bit x a then 1 else 0)"
proof -
  have "drop_bit a x AND 1 = of_bool (bit x a)"
    by (simp add: and_one_eq bit_iff_odd_drop_bit mod2_eq_if)
  then show ?thesis by simp
qed

lemma ctz_portable_eq:
  fixes x :: "16 word"
  assumes "bit x r" "\<forall>i<r. \<not> bit x i"
  shows "ctz_portable x = r"
proof -
  have r16: "r < 16" using assms(1) by (auto dest: bit_imp_le_length)
  have m: "(0xFF::16 word) = mask 8" "(0x0F::16 word) = mask 4" "(0x03::16 word) = mask 2"
    by (simp_all add: mask_eq_exp_minus_1)
  have c: "\<And>a k. a \<le> r \<Longrightarrow> (drop_bit a x AND mask k = 0) = (a + k \<le> r)"
    using low_bit_cond[OF assms] by blast
  define a1 :: nat where "a1 = (if x AND 0xFF = 0 then 8 else 0)"
  define a2 :: nat where "a2 = a1 + (if drop_bit a1 x AND 0x0F = 0 then 4 else 0)"
  define a3 :: nat where "a3 = a2 + (if drop_bit a2 x AND 0x03 = 0 then 2 else 0)"
  have b1: "a1 \<le> r \<and> r < a1 + 8"
    using c[of 0 8] r16 by (auto simp: a1_def m)
  have b2: "a2 \<le> r \<and> r < a2 + 4"
    using c[of a1 4] b1 by (auto simp: a2_def m)
  have b3: "a3 \<le> r \<and> r < a3 + 2"
    using c[of a2 2] b2 by (auto simp: a3_def m)
  have u: "ctz_portable x = Suc a3 - unat (drop_bit a3 x AND 1)"
    by (simp add: ctz_portable_def a1_def a2_def a3_def Let_def eval_nat_numeral)
  have "unat (drop_bit a3 x AND 1) = (if a3 = r then 1 else 0)"
    using assms b3 by (auto simp: and_one_unat)
  with u b3 show ?thesis by auto
qed

text \<open>
  C10. For every 16-bit \<open>x\<close> other than 0 the portable branch of \<open>ctz\<close> returns what the
  \<open>__builtin_ctz\<close> branch returns, and that number is the index of the lowest set bit
  of \<open>x\<close>: the bit at that index is set and every bit below it is clear.
\<close>

theorem ctz_portable_correct:
  fixes x :: "16 word"
  assumes "x \<noteq> 0"
  shows "ctz_portable x = ctz x \<and> ctz_portable x < 16 \<and> bit x (ctz_portable x)
         \<and> (\<forall>i < ctz_portable x. \<not> bit x i)"
proof -
  from assms obtain j where "bit x j" by (auto simp: bit_eq_iff)
  define r where "r = (LEAST j. bit x j)"
  have r: "bit x r" "\<forall>i<r. \<not> bit x i"
    using \<open>bit x j\<close> unfolding r_def by (auto intro: LeastI dest: not_less_Least)
  have r16: "r < 16" using r(1) by (auto dest: bit_imp_le_length)
  have p: "ctz_portable x = r" using r by (rule ctz_portable_eq)
  have "builtin_ctz (ucast x) = r"
    using r r16 by (intro builtin_ctz_eq) (auto simp: bit_ucast_iff)
  with p r r16 show ?thesis by (simp add: ctz_def)
qed

theorem ctz_portable_correct_witness:
  "(0x0A40 :: 16 word) \<noteq> 0 \<and> ctz_portable 0x0A40 = 6 \<and> ctz 0x0A40 = 6
   \<and> bit (0x0A40 :: 16 word) 6"
proof -
  have n: "(0x0A40 :: 16 word) \<noteq> 0" by simp
  have v: "ctz_portable 0x0A40 = 6" by (simp add: ctz_portable_def)
  show ?thesis using ctz_portable_correct [OF n] v n by simp
qed

section \<open>The driver's \<open>-f\<close> flag\<close>

text \<open>
  C9. Invoked as \<open>main -f keys.bin\<close>, the driver's loop leaves \<open>input_file\<close> equal to
  the flag \<open>-f\<close> itself (\<open>input_file = argv[i]\<close>), not to the path that follows it, so
  \<open>read_bin\<close> is given the name \<open>-f\<close>.
\<close>

theorem main_reads_flag_not_path:
  "main_reads atoi [''main'', ''-f'', ''keys.bin''] = Some ''-f''"
  by (simp add: main_reads_def initial_options_def parse_args.simps)

end
